theory Spec2Isabelle
  imports Main "HOL-Library.Word"
begin

section \<open>JavaScript values\<close>

text \<open>
  The handler of \<^verbatim>\<open>useWebsocket.ts\<close> receives whatever \<^verbatim>\<open>JSON.parse\<close> returns
  (\<^verbatim>\<open>event: any\<close>), so events, payloads and the store fields they are copied into are
  JavaScript values. \<open>JUndefined\<close> is what reading a missing property gives. A JSON
  object is the list of its members in the order of the text; of two members with the same
  name the later one counts, as in \<^verbatim>\<open>JSON.parse\<close>. A number is one of the integers a
  JavaScript number holds exactly and prints digit by digit, from \<open>- 2 ^ 53\<close> to
  \<open>2 ^ 53 - 1\<close>: a 54-bit word read as a signed integer. The handler only tests a number
  for truthiness and uses it as a property key. A \<open>char\<close> of a string stands for one code
  unit.
\<close>

datatype jsval =
    JUndefined
  | JNull
  | JBool bool
  | JNum "54 word"
  | JStr string
  | JArr "jsval list"
  | JObj "(string \<times> jsval) list"

text \<open>ToBoolean, as \<^verbatim>\<open>if (x)\<close> and \<^verbatim>\<open>x || y\<close> apply it.\<close>

fun truthy :: "jsval \<Rightarrow> bool" where
  "truthy JUndefined = False"
| "truthy JNull = False"
| "truthy (JBool b) = b"
| "truthy (JNum n) = (n \<noteq> 0)"
| "truthy (JStr s) = (s \<noteq> [])"
| "truthy (JArr xs) = True"
| "truthy (JObj ps) = True"

definition nullish :: "jsval \<Rightarrow> bool" where
  "nullish v = (v = JUndefined \<or> v = JNull)"

text \<open>
  \<^verbatim>\<open>v.k\<close> for a value \<open>v\<close> that is neither \<^verbatim>\<open>undefined\<close> nor \<^verbatim>\<open>null\<close>, and a name
  \<open>k\<close> that no prototype defines (the handler reads \<^verbatim>\<open>type\<close>, \<^verbatim>\<open>payload\<close> and the
  payload fields only): the member of an object, \<^verbatim>\<open>undefined\<close> otherwise.
\<close>

fun prop_value :: "jsval \<Rightarrow> string \<Rightarrow> jsval" where
  "prop_value (JObj ps) k = (case map_of (rev ps) k of Some v \<Rightarrow> v | None \<Rightarrow> JUndefined)"
| "prop_value v k = JUndefined"

text \<open>
  \<^verbatim>\<open>v.k\<close> for any value: reading a property of \<^verbatim>\<open>undefined\<close> or \<^verbatim>\<open>null\<close> throws a
  TypeError, written \<open>None\<close>.
\<close>

definition get_prop :: "jsval \<Rightarrow> string \<Rightarrow> jsval option" where
  "get_prop v k = (if nullish v then None else Some (prop_value v k))"

text \<open>Decimal digits of a natural number, for property keys made from numbers.\<close>

fun digits_of :: "nat \<Rightarrow> string" where
  "digits_of n =
     (if n < 10 then [''0123456789'' ! n]
      else digits_of (n div 10) @ [''0123456789'' ! (n mod 10)])"

declare digits_of.simps [simp del]

fun join_comma :: "string list \<Rightarrow> string" where
  "join_comma [] = []"
| "join_comma [s] = s"
| "join_comma (s # t # ss) = s @ '','' @ join_comma (t # ss)"

text \<open>
  ToPropertyKey: the string under which \<^verbatim>\<open>obj[v]\<close> and \<^verbatim>\<open>{[v]: ...}\<close> find or store a
  property, or \<open>None\<close> where the conversion throws a TypeError.
  \<^item> An object is converted by its \<^verbatim>\<open>toString\<close> method. A parsed object inherits the one
    of \<^verbatim>\<open>Object.prototype\<close>, which gives \<^verbatim>\<open>[object Object]\<close>, unless it has a member
    named \<^verbatim>\<open>toString\<close> of its own. Such a member is a JSON value, so it cannot be called;
    \<^verbatim>\<open>valueOf\<close> is tried next and gives no primitive value (the inherited one returns the
    object, a member of that name cannot be called either), and the conversion throws.
  \<^item> An array joins the strings of its elements with commas, \<^verbatim>\<open>null\<close> and
    \<^verbatim>\<open>undefined\<close> elements as the empty string; it throws where an element does.
\<close>

fun ToPropertyKey :: "jsval \<Rightarrow> string option" where
  "ToPropertyKey JUndefined = Some ''undefined''"
| "ToPropertyKey JNull = Some ''null''"
| "ToPropertyKey (JBool b) = Some (if b then ''true'' else ''false'')"
| "ToPropertyKey (JNum n) =
     Some (if sint n < 0 then CHR ''-'' # digits_of (nat (- sint n)) else digits_of (nat (sint n)))"
| "ToPropertyKey (JStr s) = Some s"
| "ToPropertyKey (JArr xs) =
     map_option join_comma
       (those (map (\<lambda>x. if x = JUndefined \<or> x = JNull then Some [] else ToPropertyKey x) xs))"
| "ToPropertyKey (JObj ps) =
     (if ''toString'' \<in> fst ` set ps then None else Some ''[object Object]'')"

text \<open>
  \<^verbatim>\<open>Object.entries(v)\<close> for a truthy \<open>v\<close>: the members of an object, the indexed
  elements of an array, the indexed characters of a string, nothing for a number or
  \<^verbatim>\<open>true\<close>. (JavaScript lists integer-like names first; the handler writes every entry
  into a dictionary, where that order does not show.)
\<close>

fun object_entries :: "jsval \<Rightarrow> (string \<times> jsval) list" where
  "object_entries (JObj ps) = ps"
| "object_entries (JArr xs) = zip (map digits_of [0..<length xs]) xs"
| "object_entries (JStr s) = zip (map digits_of [0..<length s]) (map (\<lambda>c. JStr [c]) s)"
| "object_entries v = []"

text \<open>
  The names every object literal inherits from \<^verbatim>\<open>Object.prototype\<close>. Reading one of
  them from an object that has no such member of its own gives a function (for
  \<^verbatim>\<open>__proto__\<close> the prototype object): a truthy value without enumerable members.
\<close>

definition Object_prototype_names :: "string list" where
  "Object_prototype_names =
     [''constructor'', ''__defineGetter__'', ''__defineSetter__'', ''hasOwnProperty'',
      ''__lookupGetter__'', ''__lookupSetter__'', ''isPrototypeOf'',
      ''propertyIsEnumerable'', ''toString'', ''valueOf'', ''__proto__'',
      ''toLocaleString'']"

section \<open>The store (\<^verbatim>\<open>workflowStore\<close>)\<close>

text \<open>
  \<^verbatim>\<open>interface Agent\<close>. The fields hold what the handler copies out of a payload, so each
  is a JavaScript value; \<open>JUndefined\<close> also stands for a field the object does not have.
\<close>

record Agent =
  a_id :: jsval
  a_name :: jsval
  a_role :: jsval
  a_status :: jsval
  a_thought :: jsval
  a_lastToolCall :: jsval
  a_output :: jsval
  a_logs :: jsval

text \<open>\<^verbatim>\<open>interface WorkflowState\<close>, the data fields.\<close>

record WorkflowState =
  workflowId :: "string option"
  status :: jsval
  progress :: jsval
  agents :: "string \<rightharpoonup> Agent"
  logs :: "jsval list"
  results :: jsval
  partialResults :: "string \<rightharpoonup> jsval"
  connected :: bool

definition initialState :: WorkflowState where
  "initialState =
     \<lparr>workflowId = None, status = JStr ''idle'', progress = JNum 0, agents = Map.empty,
      logs = [], results = JNull, partialResults = Map.empty, connected = False\<rparr>"

definition setWorkflowId :: "string \<Rightarrow> WorkflowState \<Rightarrow> WorkflowState" where
  "setWorkflowId i state = state\<lparr>workflowId := Some i\<rparr>"

definition setStatus :: "jsval \<Rightarrow> WorkflowState \<Rightarrow> WorkflowState" where
  "setStatus v state = state\<lparr>status := v\<rparr>"

definition setProgress :: "jsval \<Rightarrow> WorkflowState \<Rightarrow> WorkflowState" where
  "setProgress v state = state\<lparr>progress := v\<rparr>"

text \<open>The object literal \<^verbatim>\<open>updateAgent\<close> falls back to.\<close>

definition placeholder :: "jsval \<Rightarrow> Agent" where
  "placeholder agentId =
     \<lparr>a_id = agentId, a_name = JStr ''Unknown Agent'', a_role = JStr ''Worker'',
      a_status = JStr ''idle'', a_thought = JUndefined, a_lastToolCall = JUndefined,
      a_output = JUndefined, a_logs = JArr []\<rparr>"

text \<open>What spreading a value without enumerable members contributes: no field.\<close>

definition no_members :: Agent where
  "no_members =
     \<lparr>a_id = JUndefined, a_name = JUndefined, a_role = JUndefined, a_status = JUndefined,
      a_thought = JUndefined, a_lastToolCall = JUndefined, a_output = JUndefined,
      a_logs = JUndefined\<rparr>"

text \<open>How a call ends: it returns, or it throws a TypeError.\<close>

datatype completion = Normal | TypeError

text \<open>
  \<^verbatim>\<open>state.agents[agentId] || {id: agentId, name: 'Unknown Agent', ...}\<close>, spread into the
  new record, where \<open>key\<close> is the property key of \<open>agentId\<close>: the agent stored under the
  key; else, for a key \<^verbatim>\<open>Object.prototype\<close> defines, the inherited value, which is truthy
  and contributes no field; else the placeholder.
\<close>

definition currentAgent :: "WorkflowState \<Rightarrow> jsval \<Rightarrow> string \<Rightarrow> Agent" where
  "currentAgent state agentId key =
     (case agents state key of
        Some a \<Rightarrow> a
      | None \<Rightarrow>
          if key \<in> set Object_prototype_names then no_members
          else placeholder agentId)"

text \<open>
  \<^verbatim>\<open>updateAgent(agentId, update)\<close>. The partial record \<open>update\<close> is given by its effect
  when spread over a record: \<^verbatim>\<open>{...currentAgent, ...update}\<close> is
  \<open>update (currentAgent state agentId key)\<close>. When \<open>agentId\<close> has no property key, reading
  \<^verbatim>\<open>state.agents[agentId]\<close> throws inside the callback of \<^verbatim>\<open>set\<close>, and the store is
  left as it was.
\<close>

definition updateAgent ::
    "jsval \<Rightarrow> (Agent \<Rightarrow> Agent) \<Rightarrow> WorkflowState \<Rightarrow> completion \<times> WorkflowState" where
  "updateAgent agentId update state =
     (case ToPropertyKey agentId of
        None \<Rightarrow> (TypeError, state)
      | Some key \<Rightarrow>
          (Normal,
           state\<lparr>agents := (agents state)(key \<mapsto> update (currentAgent state agentId key))\<rparr>))"

definition addLog :: "jsval \<Rightarrow> WorkflowState \<Rightarrow> WorkflowState" where
  "addLog l state = state\<lparr>logs := logs state @ [l]\<rparr>"

definition setResults :: "jsval \<Rightarrow> WorkflowState \<Rightarrow> WorkflowState" where
  "setResults v state = state\<lparr>results := v\<rparr>"

definition updatePartialResults :: "string \<Rightarrow> jsval \<Rightarrow> WorkflowState \<Rightarrow> WorkflowState" where
  "updatePartialResults k v state = state\<lparr>partialResults := (partialResults state)(k \<mapsto> v)\<rparr>"

definition setConnected :: "bool \<Rightarrow> WorkflowState \<Rightarrow> WorkflowState" where
  "setConnected c state = state\<lparr>connected := c\<rparr>"

definition reset :: "WorkflowState \<Rightarrow> WorkflowState" where
  "reset state = initialState"

section \<open>The handler (\<^verbatim>\<open>useWebsocket\<close>)\<close>

text \<open>\<^verbatim>\<open>event.payload.k\<close>\<close>

definition payload_get :: "jsval \<Rightarrow> string \<Rightarrow> jsval option" where
  "payload_get event k =
     (case get_prop event ''payload'' of None \<Rightarrow> None | Some p \<Rightarrow> get_prop p k)"

text \<open>
  \<^verbatim>\<open>handleEvent\<close>: the completion and the store it leaves. A property read throws on
  \<^verbatim>\<open>null\<close> and \<^verbatim>\<open>undefined\<close>, and \<^verbatim>\<open>updateAgent\<close> throws on an identifier without
  property key. The store setters take effect at once, so what ran before a throw stays
  done. The arguments of a call are read before the call, so in every case but
  \<^verbatim>\<open>workflow_complete\<close> a missing payload throws before the case has written anything.
\<close>

definition handleEvent :: "jsval \<Rightarrow> WorkflowState \<Rightarrow> completion \<times> WorkflowState" where
  "handleEvent event state0 =
     (let state = addLog event state0 in
      case get_prop event ''type'' of
        None \<Rightarrow> (TypeError, state)
      | Some ty \<Rightarrow>
          if ty = JStr ''status_change'' then
            (case payload_get event ''status'' of
               None \<Rightarrow> (TypeError, state)
             | Some st \<Rightarrow>
                 let state1 = setStatus st state in
                 (case payload_get event ''percent_complete'' of
                    None \<Rightarrow> (TypeError, state1)
                  | Some pc \<Rightarrow>
                      if truthy pc then (Normal, setProgress pc state1)
                      else (Normal, state1)))
          else if ty = JStr ''agent_start'' then
            (case (payload_get event ''agent_id'', payload_get event ''agent_name'',
                   payload_get event ''role'') of
               (Some agent_id, Some agent_name, Some role) \<Rightarrow>
                 updateAgent agent_id
                   (\<lambda>a. a\<lparr>a_name := agent_name, a_role := role, a_status := JStr ''running''\<rparr>)
                   state
             | _ \<Rightarrow> (TypeError, state))
          else if ty = JStr ''agent_thinking'' then
            (case (payload_get event ''agent_id'', payload_get event ''thought'') of
               (Some agent_id, Some thought) \<Rightarrow>
                 updateAgent agent_id
                   (\<lambda>a. a\<lparr>a_status := JStr ''thinking'', a_thought := thought\<rparr>) state
             | _ \<Rightarrow> (TypeError, state))
          else if ty = JStr ''tool_call'' then
            (case (payload_get event ''agent_id'', payload_get event ''tool_name'') of
               (Some agent_id, Some tool_name) \<Rightarrow>
                 updateAgent agent_id (\<lambda>a. a\<lparr>a_lastToolCall := tool_name\<rparr>) state
             | _ \<Rightarrow> (TypeError, state))
          else if ty = JStr ''tool_result'' then
            (case payload_get event ''data_extracted'' of
               None \<Rightarrow> (TypeError, state)
             | Some data_extracted \<Rightarrow>
                 if truthy data_extracted then
                   (Normal,
                    fold (\<lambda>(key, v). updatePartialResults key v)
                      (object_entries data_extracted) state)
                 else (Normal, state))
          else if ty = JStr ''agent_complete'' then
            (case (payload_get event ''agent_id'', payload_get event ''output'') of
               (Some agent_id, Some output) \<Rightarrow>
                 updateAgent agent_id
                   (\<lambda>a. a\<lparr>a_status := JStr ''success'', a_output := output\<rparr>) state
             | _ \<Rightarrow> (TypeError, state))
          else if ty = JStr ''workflow_complete'' then
            (let state1 = setStatus (JStr ''completed'') state in
             case payload_get event ''results'' of
               None \<Rightarrow> (TypeError, state1)
             | Some r \<Rightarrow> (Normal, setResults r state1))
          else if ty = JStr ''error'' then
            (case payload_get event ''agent_id'' of
               None \<Rightarrow> (TypeError, state)
             | Some agent_id \<Rightarrow>
                 if truthy agent_id then
                   updateAgent agent_id (\<lambda>a. a\<lparr>a_status := JStr ''failed''\<rparr>) state
                 else (Normal, state))
          else (Normal, state))"

text \<open>
  The reducer: the store after the handler has run on one event, to its end or to the
  throw that \<^verbatim>\<open>onmessage\<close> catches.
\<close>

definition reducer :: "WorkflowState \<Rightarrow> jsval \<Rightarrow> WorkflowState" where
  "reducer state event = snd (handleEvent event state)"

text \<open>The event types the \<^verbatim>\<open>switch\<close> has a case for.\<close>

definition declared_types :: "string list" where
  "declared_types =
     [''status_change'', ''agent_start'', ''agent_thinking'', ''tool_call'', ''tool_result'',
      ''agent_complete'', ''workflow_complete'', ''error'']"

text \<open>The values the type of \<^verbatim>\<open>WorkflowState.status\<close> declares.\<close>

definition declared_statuses :: "jsval list" where
  "declared_statuses =
     [JStr ''idle'', JStr ''initiated'', JStr ''running'', JStr ''completed'', JStr ''failed'',
      JStr ''paused'']"

subsection \<open>The socket callbacks\<close>

text \<open>
  What the hook acts on: the store, the console, and whether the cleanup has closed the
  socket.
\<close>

record Hook =
  store :: WorkflowState
  console :: "string list"
  closed :: bool

definition initialHook :: Hook where
  "initialHook = \<lparr>store = initialState, console = [], closed = False\<rparr>"

text \<open>
  An inbound frame, by what \<^verbatim>\<open>JSON.parse(event.data)\<close> makes of it: a SyntaxError or
  a value.
\<close>

datatype message = SyntaxError | Parsed jsval

definition onopen :: "Hook \<Rightarrow> Hook" where
  "onopen h = h\<lparr>store := setConnected True (store h),
               console := console h @ [''WebSocket connected'']\<rparr>"

definition onclose :: "Hook \<Rightarrow> Hook" where
  "onclose h = h\<lparr>store := setConnected False (store h),
                console := console h @ [''WebSocket disconnected'']\<rparr>"

text \<open>The \<^verbatim>\<open>try\<close> block holds both the parse and the call of the handler.\<close>

definition onmessage :: "message \<Rightarrow> Hook \<Rightarrow> Hook" where
  "onmessage m h =
     (case m of
        SyntaxError \<Rightarrow> h\<lparr>console := console h @ [''Failed to parse WebSocket message'']\<rparr>
      | Parsed data \<Rightarrow>
          (case handleEvent data (store h) of
             (Normal, state) \<Rightarrow> h\<lparr>store := state\<rparr>
           | (TypeError, state) \<Rightarrow>
               h\<lparr>store := state,
                 console := console h @ [''Failed to parse WebSocket message'']\<rparr>))"

text \<open>The effect's cleanup: \<^verbatim>\<open>ws.current?.close()\<close>.\<close>

definition cleanup :: "Hook \<Rightarrow> Hook" where
  "cleanup h = h\<lparr>closed := True\<rparr>"

text \<open>A run of frames, in arrival order.\<close>

definition receive :: "message list \<Rightarrow> Hook \<Rightarrow> Hook" where
  "receive ms h = fold onmessage ms h"

text \<open>An envelope on the wire, for the scenarios below.\<close>

definition envelope :: "string \<Rightarrow> jsval \<Rightarrow> jsval" where
  "envelope ty payload =
     JObj [(''id'', JStr ''evt-1''), (''workflow_id'', JStr ''workflow_1''),
           (''timestamp'', JStr ''2025-01-01T00:00:00Z''), (''type'', JStr ty),
           (''payload'', payload)]"

subsection \<open>Scenario envelopes\<close>

text \<open>Scenario A of the specification, and a later report of zero percent.\<close>

definition scenarioA :: jsval where
  "scenarioA =
     envelope ''status_change''
       (JObj [(''status'', JStr ''running''), (''percent_complete'', JNum 25)])"

definition zero_percent :: jsval where
  "zero_percent =
     envelope ''status_change''
       (JObj [(''status'', JStr ''paused''), (''percent_complete'', JNum 0)])"

definition bogus_status :: jsval where
  "bogus_status = envelope ''status_change'' (JObj [(''status'', JStr ''bogus'')])"

definition status_missing :: jsval where
  "status_missing = envelope ''status_change'' (JObj [(''percent_complete'', JNum 40)])"

text \<open>Scenario E, and a second completion with other results.\<close>

definition complete_done :: jsval where
  "complete_done =
     envelope ''workflow_complete'' (JObj [(''results'', JObj [(''summary'', JStr ''done'')])])"

definition complete_again :: jsval where
  "complete_again =
     envelope ''workflow_complete'' (JObj [(''results'', JObj [(''summary'', JStr ''redone'')])])"

definition heartbeat :: jsval where
  "heartbeat = envelope ''heartbeat'' (JObj [(''status'', JStr ''failed'')])"

definition start_a1 :: jsval where
  "start_a1 =
     envelope ''agent_start''
       (JObj [(''agent_id'', JStr ''a1''), (''agent_name'', JStr ''ResearchAgent''),
              (''role'', JStr ''Researcher'')])"

text \<open>An agent whose identifier is the empty string.\<close>

definition start_empty_id :: jsval where
  "start_empty_id =
     envelope ''agent_start''
       (JObj [(''agent_id'', JStr []), (''agent_name'', JStr ''ResearchAgent''),
              (''role'', JStr ''Researcher'')])"

definition error_empty_id :: jsval where
  "error_empty_id =
     envelope ''error'' (JObj [(''agent_id'', JStr []), (''message'', JStr ''timeout'')])"

text \<open>An agent whose identifier is a name of \<^verbatim>\<open>Object.prototype\<close>.\<close>

definition start_constructor :: jsval where
  "start_constructor =
     envelope ''agent_start''
       (JObj [(''agent_id'', JStr ''constructor''), (''agent_name'', JStr ''ResearchAgent''),
              (''role'', JStr ''Researcher'')])"

definition tool_call_toString :: jsval where
  "tool_call_toString =
     envelope ''tool_call''
       (JObj [(''agent_id'', JStr ''toString''), (''tool_name'', JStr ''search'')])"

definition error_a1 :: jsval where
  "error_a1 =
     envelope ''error'' (JObj [(''agent_id'', JStr ''a1''), (''message'', JStr ''timeout'')])"

text \<open>Scenario D.\<close>

definition topic_A :: jsval where
  "topic_A =
     envelope ''tool_result''
       (JObj [(''agent_id'', JStr ''a1''),
              (''data_extracted'', JObj [(''topic'', JStr ''A''), (''source'', JStr ''web'')])])"

definition topic_B :: jsval where
  "topic_B =
     envelope ''tool_result''
       (JObj [(''agent_id'', JStr ''a1''), (''data_extracted'', JObj [(''topic'', JStr ''B'')])])"

definition result_without_data :: jsval where
  "result_without_data = envelope ''tool_result'' (JObj [(''agent_id'', JStr ''a1'')])"

section \<open>Basic facts\<close>

lemma get_prop_envelope_type [simp]: "get_prop (envelope ty p) ''type'' = Some (JStr ty)"
  by (simp add: get_prop_def envelope_def nullish_def)

lemma get_prop_envelope_payload [simp]: "get_prop (envelope ty p) ''payload'' = Some p"
  by (simp add: get_prop_def envelope_def nullish_def)

lemma payload_get_envelope [simp]: "payload_get (envelope ty p) k = get_prop p k"
  by (simp add: payload_get_def)

lemma get_prop_JObj [simp]:
  "get_prop (JObj ps) k = Some (case map_of (rev ps) k of Some v \<Rightarrow> v | None \<Rightarrow> JUndefined)"
  by (simp add: get_prop_def nullish_def)

lemma get_prop_Some_iff: "get_prop p k = Some v \<longleftrightarrow> \<not> nullish p \<and> v = prop_value p k"
  by (auto simp: get_prop_def)

lemma payload_get_eq:
  "get_prop ev ''payload'' = Some p \<Longrightarrow> payload_get ev k = get_prop p k"
  by (simp add: payload_get_def)

lemma get_prop_not_nullish: "\<not> nullish p \<Longrightarrow> get_prop p k = Some (prop_value p k)"
  by (simp add: get_prop_def)

lemma handleEvent_no_type:
  "get_prop ev ''type'' = None \<Longrightarrow> handleEvent ev s = (TypeError, addLog ev s)"
  by (simp add: handleEvent_def)

lemma handleEvent_status_change:
  "get_prop ev ''type'' = Some (JStr ''status_change'') \<Longrightarrow>
   handleEvent ev s =
     (case payload_get ev ''status'' of
        None \<Rightarrow> (TypeError, addLog ev s)
      | Some st \<Rightarrow>
          (case payload_get ev ''percent_complete'' of
             None \<Rightarrow> (TypeError, setStatus st (addLog ev s))
           | Some pc \<Rightarrow>
               if truthy pc then (Normal, setProgress pc (setStatus st (addLog ev s)))
               else (Normal, setStatus st (addLog ev s))))"
  by (simp add: handleEvent_def Let_def split: option.splits)

lemma handleEvent_agent_start:
  "get_prop ev ''type'' = Some (JStr ''agent_start'') \<Longrightarrow>
   handleEvent ev s =
     (case (payload_get ev ''agent_id'', payload_get ev ''agent_name'', payload_get ev ''role'') of
        (Some agent_id, Some agent_name, Some role) \<Rightarrow>
          updateAgent agent_id
            (\<lambda>a. a\<lparr>a_name := agent_name, a_role := role, a_status := JStr ''running''\<rparr>)
            (addLog ev s)
      | _ \<Rightarrow> (TypeError, addLog ev s))"
  by (simp add: handleEvent_def Let_def)

lemma handleEvent_agent_thinking:
  "get_prop ev ''type'' = Some (JStr ''agent_thinking'') \<Longrightarrow>
   handleEvent ev s =
     (case (payload_get ev ''agent_id'', payload_get ev ''thought'') of
        (Some agent_id, Some thought) \<Rightarrow>
          updateAgent agent_id
            (\<lambda>a. a\<lparr>a_status := JStr ''thinking'', a_thought := thought\<rparr>) (addLog ev s)
      | _ \<Rightarrow> (TypeError, addLog ev s))"
  by (simp add: handleEvent_def Let_def)

lemma handleEvent_tool_call:
  "get_prop ev ''type'' = Some (JStr ''tool_call'') \<Longrightarrow>
   handleEvent ev s =
     (case (payload_get ev ''agent_id'', payload_get ev ''tool_name'') of
        (Some agent_id, Some tool_name) \<Rightarrow>
          updateAgent agent_id (\<lambda>a. a\<lparr>a_lastToolCall := tool_name\<rparr>) (addLog ev s)
      | _ \<Rightarrow> (TypeError, addLog ev s))"
  by (simp add: handleEvent_def Let_def)

lemma handleEvent_tool_result:
  "get_prop ev ''type'' = Some (JStr ''tool_result'') \<Longrightarrow>
   handleEvent ev s =
     (case payload_get ev ''data_extracted'' of
        None \<Rightarrow> (TypeError, addLog ev s)
      | Some data_extracted \<Rightarrow>
          if truthy data_extracted then
            (Normal,
             fold (\<lambda>(key, v). updatePartialResults key v)
               (object_entries data_extracted) (addLog ev s))
          else (Normal, addLog ev s))"
  by (simp add: handleEvent_def Let_def)

lemma handleEvent_agent_complete:
  "get_prop ev ''type'' = Some (JStr ''agent_complete'') \<Longrightarrow>
   handleEvent ev s =
     (case (payload_get ev ''agent_id'', payload_get ev ''output'') of
        (Some agent_id, Some output) \<Rightarrow>
          updateAgent agent_id
            (\<lambda>a. a\<lparr>a_status := JStr ''success'', a_output := output\<rparr>) (addLog ev s)
      | _ \<Rightarrow> (TypeError, addLog ev s))"
  by (simp add: handleEvent_def Let_def)

lemma handleEvent_workflow_complete:
  "get_prop ev ''type'' = Some (JStr ''workflow_complete'') \<Longrightarrow>
   handleEvent ev s =
     (case payload_get ev ''results'' of
        None \<Rightarrow> (TypeError, setStatus (JStr ''completed'') (addLog ev s))
      | Some r \<Rightarrow> (Normal, setResults r (setStatus (JStr ''completed'') (addLog ev s))))"
  by (simp add: handleEvent_def Let_def)

lemma handleEvent_error:
  "get_prop ev ''type'' = Some (JStr ''error'') \<Longrightarrow>
   handleEvent ev s =
     (case payload_get ev ''agent_id'' of
        None \<Rightarrow> (TypeError, addLog ev s)
      | Some agent_id \<Rightarrow>
          if truthy agent_id then
            updateAgent agent_id (\<lambda>a. a\<lparr>a_status := JStr ''failed''\<rparr>) (addLog ev s)
          else (Normal, addLog ev s))"
  by (simp add: handleEvent_def Let_def)

lemma handleEvent_undeclared:
  "get_prop ev ''type'' = Some ty \<Longrightarrow> \<forall>t \<in> set declared_types. ty \<noteq> JStr t \<Longrightarrow>
   handleEvent ev s = (Normal, addLog ev s)"
  by (simp add: handleEvent_def Let_def declared_types_def)




lemma fold_updatePartialResults:
  "fold (\<lambda>(key, v). updatePartialResults key v) kvs s
     = s\<lparr>partialResults := partialResults s ++ map_of (rev kvs)\<rparr>"
  by (induction kvs arbitrary: s) (auto simp: updatePartialResults_def)

lemma event_type_cases:
  obtains (no_type) "get_prop ev ''type'' = None"
  | (status_change) "get_prop ev ''type'' = Some (JStr ''status_change'')"
  | (agent_start) "get_prop ev ''type'' = Some (JStr ''agent_start'')"
  | (agent_thinking) "get_prop ev ''type'' = Some (JStr ''agent_thinking'')"
  | (tool_call) "get_prop ev ''type'' = Some (JStr ''tool_call'')"
  | (tool_result) "get_prop ev ''type'' = Some (JStr ''tool_result'')"
  | (agent_complete) "get_prop ev ''type'' = Some (JStr ''agent_complete'')"
  | (workflow_complete) "get_prop ev ''type'' = Some (JStr ''workflow_complete'')"
  | (error) "get_prop ev ''type'' = Some (JStr ''error'')"
  | (undeclared) ty where "get_prop ev ''type'' = Some ty"
      and "\<forall>t \<in> set declared_types. ty \<noteq> JStr t"
proof (cases "get_prop ev ''type''")
  case None
  then show ?thesis by (rule no_type)
next
  case (Some ty)
  show ?thesis
  proof (cases "\<forall>t \<in> set declared_types. ty \<noteq> JStr t")
    case True
    with Some show ?thesis by (rule undeclared)
  next
    case False
    then have "ty = JStr ''status_change'' \<or> ty = JStr ''agent_start'' \<or> ty = JStr ''agent_thinking''
      \<or> ty = JStr ''tool_call'' \<or> ty = JStr ''tool_result'' \<or> ty = JStr ''agent_complete''
      \<or> ty = JStr ''workflow_complete'' \<or> ty = JStr ''error''"
      by (simp add: declared_types_def)
    with Some show ?thesis
      using status_change agent_start agent_thinking tool_call tool_result agent_complete
        workflow_complete error by blast
  qed
qed

lemma handleEvent_logs: "logs (snd (handleEvent ev s)) = logs s @ [ev]"
proof (cases ev rule: event_type_cases)
  case no_type
  then show ?thesis by (simp add: handleEvent_no_type addLog_def)
next
  case status_change
  then show ?thesis
    by (simp add: handleEvent_status_change addLog_def setStatus_def setProgress_def
        split: option.splits)
next
  case agent_start
  then show ?thesis
    by (simp add: handleEvent_agent_start addLog_def updateAgent_def split: option.splits)
next
  case agent_thinking
  then show ?thesis
    by (simp add: handleEvent_agent_thinking addLog_def updateAgent_def split: option.splits)
next
  case tool_call
  then show ?thesis
    by (simp add: handleEvent_tool_call addLog_def updateAgent_def split: option.splits)
next
  case tool_result
  then show ?thesis
    by (simp add: handleEvent_tool_result addLog_def fold_updatePartialResults
        split: option.splits)
next
  case agent_complete
  then show ?thesis
    by (simp add: handleEvent_agent_complete addLog_def updateAgent_def split: option.splits)
next
  case workflow_complete
  then show ?thesis
    by (simp add: handleEvent_workflow_complete addLog_def setStatus_def setResults_def
        split: option.splits)
next
  case error
  then show ?thesis
    by (simp add: handleEvent_error addLog_def updateAgent_def split: option.splits)
next
  case (undeclared ty)
  then show ?thesis by (simp add: handleEvent_undeclared addLog_def)
qed

lemma reducer_results:
  assumes "get_prop ev ''type'' \<noteq> Some (JStr ''workflow_complete'')"
  shows "results (reducer s ev) = results s"
proof (cases ev rule: event_type_cases)
  case no_type
  then show ?thesis by (simp add: reducer_def handleEvent_no_type addLog_def)
next
  case status_change
  then show ?thesis
    by (simp add: reducer_def handleEvent_status_change addLog_def setStatus_def setProgress_def
        split: option.splits)
next
  case agent_start
  then show ?thesis
    by (simp add: reducer_def handleEvent_agent_start addLog_def updateAgent_def
        split: option.splits)
next
  case agent_thinking
  then show ?thesis
    by (simp add: reducer_def handleEvent_agent_thinking addLog_def updateAgent_def
        split: option.splits)
next
  case tool_call
  then show ?thesis
    by (simp add: reducer_def handleEvent_tool_call addLog_def updateAgent_def
        split: option.splits)
next
  case tool_result
  then show ?thesis
    by (simp add: reducer_def handleEvent_tool_result addLog_def fold_updatePartialResults
        split: option.splits)
next
  case agent_complete
  then show ?thesis
    by (simp add: reducer_def handleEvent_agent_complete addLog_def updateAgent_def
        split: option.splits)
next
  case workflow_complete
  with assms show ?thesis by simp
next
  case error
  then show ?thesis
    by (simp add: reducer_def handleEvent_error addLog_def updateAgent_def split: option.splits)
next
  case (undeclared ty)
  then show ?thesis by (simp add: reducer_def handleEvent_undeclared addLog_def)
qed

lemma foldl_reducer_results:
  "\<forall>e \<in> set evs. get_prop e ''type'' \<noteq> Some (JStr ''workflow_complete'') \<Longrightarrow>
   results (foldl reducer s evs) = results s"
  by (induction evs arbitrary: s) (simp_all add: reducer_results)

lemma status_change_effect:
  assumes "get_prop ev ''type'' = Some (JStr ''status_change'')"
    and "payload_get ev ''status'' = Some st"
    and "payload_get ev ''percent_complete'' = Some pc"
  shows "handleEvent ev s =
     (Normal,
      if truthy pc then s\<lparr>logs := logs s @ [ev], status := st, progress := pc\<rparr>
      else s\<lparr>logs := logs s @ [ev], status := st\<rparr>)"
  using assms
  by (simp add: handleEvent_status_change addLog_def setStatus_def setProgress_def)

lemma updateAgent_cases:
  obtains (throws) "ToPropertyKey i = None" and "updateAgent i u s = (TypeError, s)"
  | (stores) key where "ToPropertyKey i = Some key"
      and "updateAgent i u s =
            (Normal, s\<lparr>agents := (agents s)(key \<mapsto> u (currentAgent s i key))\<rparr>)"
  by (cases "ToPropertyKey i") (simp_all add: updateAgent_def)

lemma updateAgent_keeps_logs_empty:
  assumes inv: "\<And>k a. agents s k = Some a \<Longrightarrow> k \<notin> set Object_prototype_names \<Longrightarrow> a_logs a = JArr []"
    and u: "\<And>x. a_logs (u x) = a_logs x"
    and a: "agents (snd (updateAgent i u s)) k = Some a"
    and k: "k \<notin> set Object_prototype_names"
  shows "a_logs a = JArr []"
proof (cases i u s rule: updateAgent_cases)
  case throws
  with a have "agents s k = Some a" by simp
  with k show ?thesis by (rule inv [rotated])
next
  case (stores key)
  show ?thesis
  proof (cases "k = key")
    case False
    with a stores have "agents s k = Some a" by simp
    with k show ?thesis by (rule inv [rotated])
  next
    case True
    with a stores have eq: "a = u (currentAgent s i key)" by simp
    have "a_logs (currentAgent s i key) = JArr []"
    proof (cases "agents s key")
      case None
      with True k show ?thesis by (simp add: currentAgent_def placeholder_def)
    next
      case (Some b)
      with True k inv [of k b] show ?thesis by (simp add: currentAgent_def)
    qed
    with eq u show ?thesis by simp
  qed
qed

lemma reducer_keeps_logs_empty:
  assumes inv: "\<And>k a. agents s k = Some a \<Longrightarrow> k \<notin> set Object_prototype_names \<Longrightarrow> a_logs a = JArr []"
    and a: "agents (reducer s ev) k = Some a"
    and k: "k \<notin> set Object_prototype_names"
  shows "a_logs a = JArr []"
proof -
  have inv': "agents (addLog ev s) k' = Some a' \<Longrightarrow> k' \<notin> set Object_prototype_names \<Longrightarrow>
      a_logs a' = JArr []" for k' a'
    using inv [of k' a'] by (simp add: addLog_def)
  have upd: "a_logs a = JArr []"
    if "agents (snd (updateAgent i u (addLog ev s))) k = Some a"
      and "\<And>x. a_logs (u x) = a_logs x"
    for i u
    using inv' that(2) that(1) k by (rule updateAgent_keeps_logs_empty)
  have same: "a_logs a = JArr []" if "agents (reducer s ev) = agents s"
    using that a k inv [of k a] by simp
  show ?thesis
  proof (cases ev rule: event_type_cases)
    case no_type
    then show ?thesis by (intro same) (simp add: reducer_def handleEvent_no_type addLog_def)
  next
    case status_change
    then show ?thesis
      by (intro same)
        (simp add: reducer_def handleEvent_status_change addLog_def setStatus_def
          setProgress_def split: option.splits)
  next
    case agent_start
    with a show ?thesis
      by (auto simp: reducer_def handleEvent_agent_start inv [of k a] k addLog_def
          split: option.splits intro: upd)
  next
    case agent_thinking
    with a show ?thesis
      by (auto simp: reducer_def handleEvent_agent_thinking inv [of k a] k addLog_def
          split: option.splits intro: upd)
  next
    case tool_call
    with a show ?thesis
      by (auto simp: reducer_def handleEvent_tool_call inv [of k a] k addLog_def
          split: option.splits intro: upd)
  next
    case tool_result
    then show ?thesis
      by (intro same)
        (simp add: reducer_def handleEvent_tool_result fold_updatePartialResults addLog_def
          split: option.splits)
  next
    case agent_complete
    with a show ?thesis
      by (auto simp: reducer_def handleEvent_agent_complete inv [of k a] k addLog_def
          split: option.splits intro: upd)
  next
    case workflow_complete
    then show ?thesis
      by (intro same)
        (simp add: reducer_def handleEvent_workflow_complete addLog_def setStatus_def
          setResults_def split: option.splits)
  next
    case error
    with a show ?thesis
      by (auto simp: reducer_def handleEvent_error inv [of k a] k addLog_def
          split: option.splits if_splits intro: upd)
  next
    case (undeclared ty)
    then show ?thesis by (intro same) (simp add: reducer_def handleEvent_undeclared addLog_def)
  qed
qed

lemma run_keeps_logs_empty:
  assumes "\<And>k a. agents s k = Some a \<Longrightarrow> k \<notin> set Object_prototype_names \<Longrightarrow> a_logs a = JArr []"
    and "agents (foldl reducer s evs) k = Some a"
    and "k \<notin> set Object_prototype_names"
  shows "a_logs a = JArr []"
  using assms
proof (induction evs arbitrary: s)
  case Nil
  then show ?case by simp
next
  case (Cons ev evs)
  show ?case
  proof (rule Cons.IH [of "reducer s ev"])
    show "a_logs a' = JArr []"
      if "agents (reducer s ev) k' = Some a'" and "k' \<notin> set Object_prototype_names" for k' a'
      using Cons.prems(1) that by (rule reducer_keeps_logs_empty)
    show "agents (foldl reducer (reducer s ev) evs) k = Some a" using Cons.prems(2) by simp
    show "k \<notin> set Object_prototype_names" by (rule Cons.prems(3))
  qed
qed

lemma agent_logs_stay_empty:
  assumes "agents (foldl reducer initialState evs) k = Some a"
    and "k \<notin> set Object_prototype_names"
  shows "a_logs a = JArr []"
proof (rule run_keeps_logs_empty [OF _ assms])
  show "a_logs a' = JArr []" if "agents initialState k' = Some a'" for k' a'
    using that by (simp add: initialState_def)
qed

text \<open>
  What the handler does for an agent it has not seen, when the identifier is a string that
  is no name of \<^verbatim>\<open>Object.prototype\<close>: it stores the placeholder overwritten with the
  fields of the event; for \<^verbatim>\<open>error\<close> only when the identifier is not the empty string.
\<close>

lemma unseen_agent_gets_placeholder:
  assumes "get_prop ev ''payload'' = Some p"
    and "get_prop p ''agent_id'' = Some (JStr aid)"
    and "agents s aid = None"
    and "aid \<notin> set Object_prototype_names"
  shows
    "(get_prop ev ''type'' = Some (JStr ''agent_start'') \<longrightarrow>
        handleEvent ev s =
          (Normal,
           s\<lparr>logs := logs s @ [ev],
             agents := (agents s)(aid \<mapsto>
               \<lparr>a_id = JStr aid, a_name = prop_value p ''agent_name'',
                a_role = prop_value p ''role'', a_status = JStr ''running'',
                a_thought = JUndefined, a_lastToolCall = JUndefined, a_output = JUndefined,
                a_logs = JArr []\<rparr>)\<rparr>)) \<and>
     (get_prop ev ''type'' = Some (JStr ''agent_thinking'') \<longrightarrow>
        handleEvent ev s =
          (Normal,
           s\<lparr>logs := logs s @ [ev],
             agents := (agents s)(aid \<mapsto>
               \<lparr>a_id = JStr aid, a_name = JStr ''Unknown Agent'', a_role = JStr ''Worker'',
                a_status = JStr ''thinking'', a_thought = prop_value p ''thought'',
                a_lastToolCall = JUndefined, a_output = JUndefined, a_logs = JArr []\<rparr>)\<rparr>)) \<and>
     (get_prop ev ''type'' = Some (JStr ''tool_call'') \<longrightarrow>
        handleEvent ev s =
          (Normal,
           s\<lparr>logs := logs s @ [ev],
             agents := (agents s)(aid \<mapsto>
               \<lparr>a_id = JStr aid, a_name = JStr ''Unknown Agent'', a_role = JStr ''Worker'',
                a_status = JStr ''idle'', a_thought = JUndefined,
                a_lastToolCall = prop_value p ''tool_name'', a_output = JUndefined,
                a_logs = JArr []\<rparr>)\<rparr>)) \<and>
     (get_prop ev ''type'' = Some (JStr ''agent_complete'') \<longrightarrow>
        handleEvent ev s =
          (Normal,
           s\<lparr>logs := logs s @ [ev],
             agents := (agents s)(aid \<mapsto>
               \<lparr>a_id = JStr aid, a_name = JStr ''Unknown Agent'', a_role = JStr ''Worker'',
                a_status = JStr ''success'', a_thought = JUndefined,
                a_lastToolCall = JUndefined, a_output = prop_value p ''output'',
                a_logs = JArr []\<rparr>)\<rparr>)) \<and>
     (get_prop ev ''type'' = Some (JStr ''error'') \<longrightarrow> aid \<noteq> [] \<longrightarrow>
        handleEvent ev s =
          (Normal,
           s\<lparr>logs := logs s @ [ev],
             agents := (agents s)(aid \<mapsto>
               \<lparr>a_id = JStr aid, a_name = JStr ''Unknown Agent'', a_role = JStr ''Worker'',
                a_status = JStr ''failed'', a_thought = JUndefined,
                a_lastToolCall = JUndefined, a_output = JUndefined, a_logs = JArr []\<rparr>)\<rparr>))"
proof -
  from assms(2) have p: "\<not> nullish p" by (simp add: get_prop_Some_iff)
  have fields: "payload_get ev k = Some (prop_value p k)" for k
    using assms(1) p by (simp add: payload_get_eq get_prop_def)
  have aid: "payload_get ev ''agent_id'' = Some (JStr aid)"
    using assms(1,2) by (simp add: payload_get_eq)
  have cur: "currentAgent (addLog ev s) (JStr aid) aid = placeholder (JStr aid)"
    using assms(3,4) by (simp add: currentAgent_def addLog_def)
  have upd: "updateAgent (JStr aid) u (addLog ev s)
      = (Normal,
         s\<lparr>logs := logs s @ [ev], agents := (agents s)(aid \<mapsto> u (placeholder (JStr aid)))\<rparr>)"
    for u
    using cur by (simp add: updateAgent_def addLog_def)
  show ?thesis
    using aid
    by (simp add: handleEvent_agent_start handleEvent_agent_thinking handleEvent_tool_call
        handleEvent_agent_complete handleEvent_error fields upd placeholder_def)
qed

text \<open>
  What an \<^verbatim>\<open>error\<close> event does. It never changes the workflow \<open>status\<close>. When its
  \<^verbatim>\<open>agent_id\<close> is truthy and has the property key \<open>key\<close>, the agent under \<open>key\<close> gets the
  status \<^verbatim>\<open>'failed'\<close>; when it is truthy and has no property key, the handler throws with
  the event logged; when it is missing or falsy, the event is only logged.
\<close>

lemma error_event_effect:
  assumes "get_prop ev ''type'' = Some (JStr ''error'')"
  shows
    "status (reducer s ev) = status s \<and>
     (payload_get ev ''agent_id'' = Some a \<longrightarrow> truthy a \<longrightarrow> ToPropertyKey a = Some key \<longrightarrow>
        handleEvent ev s =
          (Normal,
           s\<lparr>logs := logs s @ [ev],
             agents := (agents s)(key \<mapsto> (currentAgent s a key)\<lparr>a_status := JStr ''failed''\<rparr>)\<rparr>)) \<and>
     (payload_get ev ''agent_id'' = Some a \<longrightarrow> truthy a \<longrightarrow> ToPropertyKey a = None \<longrightarrow>
        handleEvent ev s = (TypeError, s\<lparr>logs := logs s @ [ev]\<rparr>)) \<and>
     (payload_get ev ''agent_id'' = Some a \<longrightarrow> \<not> truthy a \<longrightarrow>
        handleEvent ev s = (Normal, s\<lparr>logs := logs s @ [ev]\<rparr>))"
  using assms
  by (simp add: reducer_def handleEvent_error updateAgent_def currentAgent_def addLog_def
      split: option.splits)

section \<open>Status changes and progress\<close>

text \<open>
  Claim C1, at an input where the handler departs from it. After Scenario A the progress
  is 25. A \<^verbatim>\<open>status_change\<close> whose payload carries \<^verbatim>\<open>percent_complete: 0\<close> then sets
  the status it names, but the guard \<^verbatim>\<open>if (event.payload.percent_complete)\<close> is false
  for the number 0, \<^verbatim>\<open>setProgress\<close> is not called, and the progress stays 25.
  (\<open>status_change_effect\<close> above is the general behaviour: the status is always stored,
  the progress when \<^verbatim>\<open>percent_complete\<close> is truthy.)
\<close>

theorem zero_percent_keeps_old_progress:
  "payload_get zero_percent ''percent_complete'' = Some (JNum 0) \<and>
   progress (reducer initialState scenarioA) = JNum 25 \<and>
   status (reducer (reducer initialState scenarioA) zero_percent) = JStr ''paused'' \<and>
   progress (reducer (reducer initialState scenarioA) zero_percent) = JNum 25"
  by (simp add: reducer_def scenarioA_def zero_percent_def handleEvent_status_change
      setStatus_def setProgress_def addLog_def)

section \<open>Completion of the workflow\<close>

text \<open>
  Claim C2, as the handler has it. A \<^verbatim>\<open>workflow_complete\<close> event whose payload can be
  read sets \<open>status\<close> to \<^verbatim>\<open>'completed'\<close> and \<open>results\<close> to the payload's
  \<^verbatim>\<open>results\<close>. No run of events of any other type, declared or not, changes \<open>results\<close>.
  (A later \<^verbatim>\<open>workflow_complete\<close> does: by the first part it stores its own results.)
\<close>

theorem workflow_complete_sets_results:
  "(get_prop ev ''type'' = Some (JStr ''workflow_complete'') \<longrightarrow>
    payload_get ev ''results'' = Some r \<longrightarrow>
      status (reducer s ev) = JStr ''completed'' \<and> results (reducer s ev) = r) \<and>
   ((\<forall>e \<in> set evs. get_prop e ''type'' \<noteq> Some (JStr ''workflow_complete'')) \<longrightarrow>
      results (foldl reducer s evs) = results s)"
  by (simp add: reducer_def handleEvent_workflow_complete setResults_def setStatus_def
      foldl_reducer_results)

text \<open>
  Scenario E on the initial store, followed by a status change, an agent start, a tool
  result, an agent error and an event of an undeclared type: the results stay.
\<close>

theorem workflow_complete_sets_results_witness:
  "status (reducer initialState complete_done) = JStr ''completed'' \<and>
   results (reducer initialState complete_done) = JObj [(''summary'', JStr ''done'')] \<and>
   results (foldl reducer (reducer initialState complete_done)
              [scenarioA, start_a1, topic_A, error_a1, heartbeat])
     = results (reducer initialState complete_done)"
proof -
  have ty: "get_prop complete_done ''type'' = Some (JStr ''workflow_complete'')"
    by (simp add: complete_done_def)
  have r: "payload_get complete_done ''results'' = Some (JObj [(''summary'', JStr ''done'')])"
    by (simp add: complete_done_def)
  have others: "\<forall>e \<in> set [scenarioA, start_a1, topic_A, error_a1, heartbeat].
      get_prop e ''type'' \<noteq> Some (JStr ''workflow_complete'')"
    by (simp add: scenarioA_def start_a1_def topic_A_def error_a1_def heartbeat_def)
  from workflow_complete_sets_results
    [of complete_done "JObj [(''summary'', JStr ''done'')]" initialState
       "[scenarioA, start_a1, topic_A, error_a1, heartbeat]" ]
    workflow_complete_sets_results
    [of complete_done "JObj [(''summary'', JStr ''done'')]" "reducer initialState complete_done"
       "[scenarioA, start_a1, topic_A, error_a1, heartbeat]" ]
    ty r others
  show ?thesis by blast
qed

text \<open>
  Claim C2 as stated fails: after Scenario E the results are set, and a second
  \<^verbatim>\<open>workflow_complete\<close> with other results replaces them.
\<close>

theorem results_overwritten_counterexample:
  "results (reducer initialState complete_done) = JObj [(''summary'', JStr ''done'')] \<and>
   results (reducer initialState complete_done) \<noteq> JNull \<and>
   results (reducer (reducer initialState complete_done) complete_again)
     \<noteq> results (reducer initialState complete_done)"
  by (simp add: complete_done_def complete_again_def reducer_def handleEvent_workflow_complete
      setResults_def)

section \<open>Events of an undeclared type\<close>

text \<open>
  Claim C3. When the \<^verbatim>\<open>type\<close> read from an event is none of the eight declared type
  strings (another string, another kind of value, missing, or unreadable because the
  event is \<^verbatim>\<open>null\<close>), the store after the handler differs from the store before only in
  \<open>logs\<close>, which has the event appended: \<open>status\<close>, \<open>progress\<close>, \<open>agents\<close>,
  \<open>partialResults\<close>, \<open>results\<close>, \<open>connected\<close> and \<open>workflowId\<close> are as before. And for
  every event, of any type, \<open>logs\<close> afterwards is \<open>logs\<close> before with the event appended.
\<close>

theorem undeclared_type_only_appends_log:
  "(get_prop ev ''type'' \<notin> set (map (\<lambda>t. Some (JStr t)) declared_types)
      \<longrightarrow> reducer s ev = s\<lparr>logs := logs s @ [ev]\<rparr>) \<and>
   logs (reducer s ev) = logs s @ [ev]"
proof
  show "get_prop ev ''type'' \<notin> set (map (\<lambda>t. Some (JStr t)) declared_types)
      \<longrightarrow> reducer s ev = s\<lparr>logs := logs s @ [ev]\<rparr>"
  proof
    assume out: "get_prop ev ''type'' \<notin> set (map (\<lambda>t. Some (JStr t)) declared_types)"
    show "reducer s ev = s\<lparr>logs := logs s @ [ev]\<rparr>"
    proof (cases "get_prop ev ''type''")
      case None
      then show ?thesis by (simp add: reducer_def handleEvent_no_type addLog_def)
    next
      case (Some ty)
      with out have "\<forall>t \<in> set declared_types. ty \<noteq> JStr t" by auto
      with Some show ?thesis by (simp add: reducer_def handleEvent_undeclared addLog_def)
    qed
  qed
  show "logs (reducer s ev) = logs s @ [ev]"
    by (simp add: reducer_def handleEvent_logs)
qed

text \<open>
  An event of type \<^verbatim>\<open>heartbeat\<close> and the value \<^verbatim>\<open>null\<close> on the initial store; the log
  append for a declared type.
\<close>

theorem undeclared_type_only_appends_log_witness:
  "get_prop heartbeat ''type'' = Some (JStr ''heartbeat'') \<and>
   ''heartbeat'' \<notin> set declared_types \<and>
   reducer initialState heartbeat = initialState\<lparr>logs := [heartbeat]\<rparr> \<and>
   reducer initialState JNull = initialState\<lparr>logs := [JNull]\<rparr> \<and>
   logs (reducer initialState scenarioA) = [scenarioA]"
proof -
  have ty: "get_prop heartbeat ''type'' = Some (JStr ''heartbeat'')"
    by (simp add: heartbeat_def)
  have out: "get_prop heartbeat ''type'' \<notin> set (map (\<lambda>t. Some (JStr t)) declared_types)"
    by (simp add: ty declared_types_def)
  have out_null: "get_prop JNull ''type'' \<notin> set (map (\<lambda>t. Some (JStr t)) declared_types)"
    by (simp add: get_prop_def nullish_def declared_types_def)
  have l0: "logs initialState = []" by (simp add: initialState_def)
  from undeclared_type_only_appends_log [of heartbeat initialState]
    undeclared_type_only_appends_log [of JNull initialState]
    undeclared_type_only_appends_log [of scenarioA initialState] ty out out_null l0
  show ?thesis by (simp add: declared_types_def)
qed

section \<open>Agents seen for the first time\<close>

text \<open>
  Claim C4, at two inputs where the handler departs from it. On the initial store no agent
  is known. An \<^verbatim>\<open>error\<close> event whose \<^verbatim>\<open>agent_id\<close> is the empty string references an
  unseen agent, but the guard \<^verbatim>\<open>if (event.payload.agent_id)\<close> is false for the empty
  string and no record is made (an \<^verbatim>\<open>agent_start\<close> with the same identifier does make
  one). A \<^verbatim>\<open>tool_call\<close> for the identifier \<^verbatim>\<open>toString\<close> finds the inherited function
  in place of an agent, so the record it stores has the tool name and none of the
  placeholder's fields. (\<open>unseen_agent_gets_placeholder\<close> above is what holds for the
  other identifiers.)
\<close>

theorem unseen_agent_without_placeholder:
  "agents initialState [] = None \<and>
   payload_get error_empty_id ''agent_id'' = Some (JStr []) \<and>
   handleEvent error_empty_id initialState = (Normal, initialState\<lparr>logs := [error_empty_id]\<rparr>) \<and>
   agents (reducer initialState error_empty_id) [] = None \<and>
   map_option a_id (agents (reducer initialState start_empty_id) []) = Some (JStr []) \<and>
   agents initialState ''toString'' = None \<and>
   agents (reducer initialState tool_call_toString) ''toString'' =
     Some \<lparr>a_id = JUndefined, a_name = JUndefined, a_role = JUndefined, a_status = JUndefined,
           a_thought = JUndefined, a_lastToolCall = JStr ''search'', a_output = JUndefined,
           a_logs = JUndefined\<rparr>"
  by (simp add: reducer_def error_empty_id_def start_empty_id_def tool_call_toString_def
      handleEvent_error handleEvent_agent_start handleEvent_tool_call updateAgent_def
      currentAgent_def placeholder_def no_members_def addLog_def initialState_def
      Object_prototype_names_def)

section \<open>Partial results\<close>

text \<open>
  Claim C5. For a \<^verbatim>\<open>tool_result\<close> event whose \<^verbatim>\<open>data_extracted\<close> is an object, every
  key of \<open>partialResults\<close> afterwards holds the value \<^verbatim>\<open>data_extracted\<close> gives it, when it
  gives one (the earlier value is replaced, not merged), and what it held before otherwise.
  For a \<^verbatim>\<open>tool_result\<close> event whose payload has no \<^verbatim>\<open>data_extracted\<close>,
  \<open>partialResults\<close> is unchanged.
\<close>

theorem tool_result_overwrites_partialResults:
  assumes "get_prop ev ''type'' = Some (JStr ''tool_result'')"
  shows
    "(payload_get ev ''data_extracted'' = Some (JObj kvs) \<longrightarrow>
        partialResults (reducer s ev) k =
          (case map_of (rev kvs) k of Some v \<Rightarrow> Some v | None \<Rightarrow> partialResults s k)) \<and>
     (payload_get ev ''data_extracted'' = Some JUndefined \<longrightarrow>
        partialResults (reducer s ev) = partialResults s)"
  using assms
  by (simp add: reducer_def handleEvent_tool_result fold_updatePartialResults addLog_def
      map_add_def)

text \<open>
  Scenario D: \<^verbatim>\<open>topic\<close> is written as A, then as B; \<^verbatim>\<open>source\<close>, which the second event
  does not mention, keeps its value; a result without \<^verbatim>\<open>data_extracted\<close> changes nothing.
\<close>

theorem tool_result_overwrites_partialResults_witness:
  "partialResults (reducer initialState topic_A) ''topic'' = Some (JStr ''A'') \<and>
   partialResults (reducer (reducer initialState topic_A) topic_B) ''topic'' = Some (JStr ''B'') \<and>
   partialResults (reducer (reducer initialState topic_A) topic_B) ''source'' = Some (JStr ''web'') \<and>
   partialResults (reducer (reducer initialState topic_A) topic_B) ''other'' = None \<and>
   partialResults (reducer (reducer initialState topic_A) result_without_data)
     = partialResults (reducer initialState topic_A)"
proof -
  have tyA: "get_prop topic_A ''type'' = Some (JStr ''tool_result'')"
    and tyB: "get_prop topic_B ''type'' = Some (JStr ''tool_result'')"
    and tyN: "get_prop result_without_data ''type'' = Some (JStr ''tool_result'')"
    by (simp_all add: topic_A_def topic_B_def result_without_data_def)
  have dA: "payload_get topic_A ''data_extracted''
      = Some (JObj [(''topic'', JStr ''A''), (''source'', JStr ''web'')])"
    and dB: "payload_get topic_B ''data_extracted'' = Some (JObj [(''topic'', JStr ''B'')])"
    and dN: "payload_get result_without_data ''data_extracted'' = Some JUndefined"
    by (simp_all add: topic_A_def topic_B_def result_without_data_def)
  have p0: "partialResults initialState = Map.empty" by (simp add: initialState_def)
  note A = tool_result_overwrites_partialResults [OF tyA, of _ initialState]
  note B = tool_result_overwrites_partialResults [OF tyB, of _ "reducer initialState topic_A"]
  note N = tool_result_overwrites_partialResults [OF tyN, of _ "reducer initialState topic_A"]
  from A [of "[(''topic'', JStr ''A''), (''source'', JStr ''web'')]" "''topic''"]
    A [of "[(''topic'', JStr ''A''), (''source'', JStr ''web'')]" "''source''"]
    A [of "[(''topic'', JStr ''A''), (''source'', JStr ''web'')]" "''other''"]
    B [of "[(''topic'', JStr ''B'')]" "''topic''"]
    B [of "[(''topic'', JStr ''B'')]" "''source''"]
    B [of "[(''topic'', JStr ''B'')]" "''other''"]
    N [of "[]" "''topic''"] dA dB dN p0
  show ?thesis by simp
qed

section \<open>Frames that do not decode\<close>

text \<open>
  Claim C6, as the hook has it. A frame on which \<^verbatim>\<open>JSON.parse\<close> throws adds the failure
  message to the console and does nothing else: the store is the same in every field, the
  socket is not closed, and the store is not what the handler would have left for any
  event. A frame that parses is handed to the handler, which appends the parsed value to
  \<open>logs\<close> whatever it is.
\<close>

theorem malformed_frame_discarded:
  "onmessage SyntaxError h = h\<lparr>console := console h @ [''Failed to parse WebSocket message'']\<rparr> \<and>
   store (onmessage SyntaxError h) = store h \<and>
   closed (onmessage SyntaxError h) = closed h \<and>
   (\<forall>ev. store (onmessage SyntaxError h) \<noteq> reducer (store h) ev) \<and>
   logs (store (onmessage (Parsed v) h)) = logs (store h) @ [v]"
proof -
  have "logs (reducer (store h) ev) \<noteq> logs (store h)" for ev
    by (simp add: reducer_def handleEvent_logs)
  then have "store h \<noteq> reducer (store h) ev" for ev by metis
  moreover have "logs (store (onmessage (Parsed v) h)) = logs (store h) @ [v]"
    using handleEvent_logs [of v "store h"]
    by (cases "handleEvent v (store h)") (simp add: onmessage_def split: completion.splits)
  ultimately show ?thesis by (simp add: onmessage_def)
qed

text \<open>A frame that is not JSON after the socket opened; the frame \<^verbatim>\<open>42\<close>.\<close>

theorem malformed_frame_discarded_witness:
  "store (onmessage SyntaxError (onopen initialHook)) = initialState\<lparr>connected := True\<rparr> \<and>
   console (onmessage SyntaxError (onopen initialHook))
     = [''WebSocket connected'', ''Failed to parse WebSocket message''] \<and>
   \<not> closed (onmessage SyntaxError (onopen initialHook)) \<and>
   logs (store (onmessage (Parsed (JNum 42)) initialHook)) = [JNum 42]"
  using malformed_frame_discarded [of "onopen initialHook"]
    malformed_frame_discarded [of initialHook "JNum 42"]
  by (simp add: onopen_def initialHook_def setConnected_def initialState_def)

text \<open>
  Claim C6 as stated fails for the frame \<^verbatim>\<open>null\<close>, which is JSON but no envelope: the
  handler appends it to \<open>logs\<close>, then reading \<^verbatim>\<open>event.type\<close> throws, and the \<^verbatim>\<open>catch\<close>
  reports the failure with the store already changed.
\<close>

theorem non_envelope_reaches_store_counterexample:
  "store (onmessage (Parsed JNull) initialHook) \<noteq> store initialHook \<and>
   logs (store (onmessage (Parsed JNull) initialHook)) = [JNull] \<and>
   console (onmessage (Parsed JNull) initialHook) = [''Failed to parse WebSocket message'']"
proof -
  have "onmessage (Parsed JNull) initialHook
      = initialHook\<lparr>store := initialState\<lparr>logs := [JNull]\<rparr>,
          console := [''Failed to parse WebSocket message'']\<rparr>"
    by (simp add: onmessage_def handleEvent_no_type get_prop_def nullish_def initialHook_def
        addLog_def initialState_def)
  moreover have "initialState\<lparr>logs := [JNull]\<rparr> \<noteq> initialState"
  proof
    assume "initialState\<lparr>logs := [JNull]\<rparr> = initialState"
    then have "logs (initialState\<lparr>logs := [JNull]\<rparr>) = logs initialState" by simp
    then show False by (simp add: initialState_def)
  qed
  ultimately show ?thesis by (simp add: initialHook_def)
qed

section \<open>Agent errors\<close>

text \<open>
  Claim C7, at an input where the handler departs from it. An \<^verbatim>\<open>agent_start\<close> stores an
  agent under the empty string as its identifier, with status \<^verbatim>\<open>'running'\<close>. An
  \<^verbatim>\<open>error\<close> event whose payload carries that identifier as \<^verbatim>\<open>agent_id\<close> does not set the
  agent's status to \<^verbatim>\<open>'failed'\<close>: the guard \<^verbatim>\<open>if (event.payload.agent_id)\<close> is false for
  the empty string, and the agent stays \<^verbatim>\<open>'running'\<close>. (\<open>error_event_effect\<close> above is the
  general behaviour: the workflow status never changes, and the agent fails when the
  identifier is truthy.)
\<close>

theorem error_with_empty_id_fails_no_agent:
  "payload_get error_empty_id ''agent_id'' = Some (JStr []) \<and>
   map_option a_id (agents (reducer initialState start_empty_id) []) = Some (JStr []) \<and>
   map_option a_status (agents (reducer initialState start_empty_id) []) = Some (JStr ''running'') \<and>
   map_option a_status (agents (reducer (reducer initialState start_empty_id) error_empty_id) [])
     = Some (JStr ''running'')"
  by (simp add: reducer_def start_empty_id_def error_empty_id_def handleEvent_agent_start
      handleEvent_error updateAgent_def currentAgent_def placeholder_def addLog_def
      initialState_def Object_prototype_names_def)

section \<open>Transport open and close\<close>

text \<open>
  Claim C8. \<^verbatim>\<open>onopen\<close> leaves the store as it was but for \<open>connected\<close>, which becomes
  true; \<^verbatim>\<open>onclose\<close> leaves it as it was but for \<open>connected\<close>, which becomes false. So after
  any run of frames a close gives \<open>connected = False\<close> and the \<open>status\<close>, \<open>progress\<close>,
  \<open>agents\<close>, \<open>logs\<close>, \<open>partialResults\<close>, \<open>results\<close> and \<open>workflowId\<close> the run had produced.
\<close>

theorem transport_only_connected:
  "store (onopen h) = (store h)\<lparr>connected := True\<rparr> \<and>
   store (onclose h) = (store h)\<lparr>connected := False\<rparr> \<and>
   store (onclose (receive ms h)) = (store (receive ms h))\<lparr>connected := False\<rparr>"
  by (simp add: onopen_def onclose_def setConnected_def)

text \<open>Scenario F: open, Scenario A, close.\<close>

theorem transport_only_connected_witness:
  "connected (store (onopen initialHook)) \<and>
   \<not> connected (store (onclose (receive [Parsed scenarioA] (onopen initialHook)))) \<and>
   status (store (onclose (receive [Parsed scenarioA] (onopen initialHook)))) = JStr ''running'' \<and>
   progress (store (onclose (receive [Parsed scenarioA] (onopen initialHook)))) = JNum 25 \<and>
   logs (store (onclose (receive [Parsed scenarioA] (onopen initialHook)))) = [scenarioA]"
proof -
  have run: "store (receive [Parsed scenarioA] (onopen initialHook))
      = initialState\<lparr>connected := True, logs := [scenarioA], status := JStr ''running'',
          progress := JNum 25\<rparr>"
    by (simp add: receive_def onmessage_def onopen_def initialHook_def handleEvent_status_change
        scenarioA_def setConnected_def addLog_def setStatus_def setProgress_def initialState_def)
  from transport_only_connected [of initialHook "[Parsed scenarioA]"]
    transport_only_connected [of "onopen initialHook" "[Parsed scenarioA]"] run
  show ?thesis by (simp add: initialState_def)
qed

section \<open>The status is not validated\<close>

text \<open>
  Claim C9. A \<^verbatim>\<open>status_change\<close> event stores whatever \<^verbatim>\<open>event.payload.status\<close> is: any
  string, any other value, or \<^verbatim>\<open>undefined\<close> when the field is missing. So the status,
  which starts as one of the six declared values, leaves them on an event that names
  \<^verbatim>\<open>'bogus'\<close> and on an event that names no status.
\<close>

theorem status_change_passes_status_through:
  "(get_prop ev ''type'' = Some (JStr ''status_change'') \<longrightarrow>
    payload_get ev ''status'' = Some v \<longrightarrow> status (reducer s ev) = v) \<and>
   status initialState \<in> set declared_statuses \<and>
   status (reducer initialState bogus_status) \<notin> set declared_statuses \<and>
   status (reducer initialState status_missing) \<notin> set declared_statuses"
proof -
  have "status (reducer s ev) = v"
    if "get_prop ev ''type'' = Some (JStr ''status_change'')"
      and "payload_get ev ''status'' = Some v"
    using that
    by (simp add: reducer_def handleEvent_status_change setStatus_def setProgress_def
        split: option.splits)
  moreover have "status (reducer initialState bogus_status) = JStr ''bogus''"
    by (simp add: reducer_def bogus_status_def handleEvent_status_change setStatus_def)
  moreover have "status (reducer initialState status_missing) = JUndefined"
    by (simp add: reducer_def status_missing_def handleEvent_status_change setStatus_def
        setProgress_def)
  ultimately show ?thesis by (simp add: declared_statuses_def initialState_def)
qed

text \<open>The two events above and Scenario A, on the initial store.\<close>

theorem status_change_passes_status_through_witness:
  "status (reducer initialState bogus_status) = JStr ''bogus'' \<and>
   status (reducer initialState status_missing) = JUndefined \<and>
   status (reducer initialState scenarioA) = JStr ''running''"
proof -
  have ty: "get_prop bogus_status ''type'' = Some (JStr ''status_change'')"
    "get_prop status_missing ''type'' = Some (JStr ''status_change'')"
    "get_prop scenarioA ''type'' = Some (JStr ''status_change'')"
    by (simp_all add: bogus_status_def status_missing_def scenarioA_def)
  have st: "payload_get bogus_status ''status'' = Some (JStr ''bogus'')"
    "payload_get status_missing ''status'' = Some JUndefined"
    "payload_get scenarioA ''status'' = Some (JStr ''running'')"
    by (simp_all add: bogus_status_def status_missing_def scenarioA_def)
  from status_change_passes_status_through [of bogus_status "JStr ''bogus''" initialState]
    status_change_passes_status_through [of status_missing JUndefined initialState]
    status_change_passes_status_through [of scenarioA "JStr ''running''" initialState] ty st
  show ?thesis by simp
qed

section \<open>The logs of an agent\<close>

text \<open>
  Claim C10, at an input where the store departs from it. An \<^verbatim>\<open>agent_start\<close> for the
  identifier \<^verbatim>\<open>constructor\<close> finds \<^verbatim>\<open>state.agents['constructor']\<close> truthy, though the
  map has no such agent: the value is the inherited function. The placeholder is not
  used, and the record stored has neither \<open>id\<close> nor \<open>logs\<close>. (\<open>agent_logs_stay_empty\<close>
  above is what holds: under every other key the \<open>logs\<close> are the empty list after any run
  of events.)
\<close>

theorem inherited_name_agent_lacks_logs:
  "agents initialState ''constructor'' = None \<and>
   agents (reducer initialState start_constructor) ''constructor'' =
     Some \<lparr>a_id = JUndefined, a_name = JStr ''ResearchAgent'', a_role = JStr ''Researcher'',
           a_status = JStr ''running'', a_thought = JUndefined, a_lastToolCall = JUndefined,
           a_output = JUndefined, a_logs = JUndefined\<rparr>"
  by (simp add: reducer_def start_constructor_def handleEvent_agent_start updateAgent_def
      currentAgent_def no_members_def addLog_def initialState_def Object_prototype_names_def)

end
